theory Spec2Isabelle
  imports Complex_Main "HOL-Library.Word"
begin

section \<open>UR RTDE position controller\<close>

text \<open>
  A shallow embedding of \<^verbatim>\<open>RTDEController\<close> (the position controller node). C++
  \<^verbatim>\<open>double\<close> values are modelled by the reals, \<^verbatim>\<open>std::vector\<close> by lists. Calls to the
  robot interface, publications and log lines are recorded as a list of events returned
  next to the updated controller state. Reads outside a vector, Eigen size assertions
  and divisions by zero are failures of the model (\<open>Inl\<close>).
\<close>

subsection \<open>Messages, controller state, events\<close>

record JointTrajectoryPoint =
  positions :: "real list"
  velocities :: "real list"
  accelerations :: "real list"
  effort :: "real list"
  time_from_start :: real

record JointTrajectory =
  joint_names :: "string list"
  points :: "JointTrajectoryPoint list"

record Point =
  px :: real
  py :: real
  pz :: real

record Quaternion =
  qx :: real
  qy :: real
  qz :: real
  qw :: real

record Pose =
  position :: Point
  orientation :: Quaternion

record CartesianPoint =
  cartesian_pose :: Pose
  velocity :: real

text \<open>
  The constants \<^verbatim>\<open>JOINT_LIMITS\<close>, \<^verbatim>\<open>JOINT_VELOCITY_MAX\<close> and \<^verbatim>\<open>ACCELERATION\<close> are declared in
  the header \<^verbatim>\<open>position_controller.h\<close>; they are parameters of the model.
\<close>

record params =
  JOINT_LIMITS :: real
  JOINT_VELOCITY_MAX :: real
  ACCELERATION :: real

record RTDEController =
  desired_trajectory :: JointTrajectory
  new_trajectory_received :: bool
  actual_joint_position :: "real list"
  actual_cartesian_pose :: Pose

datatype failure = OutOfBounds | EigenSizeMismatch | DivisionByZero

text \<open>
  \<open>MoveJ q v a\<close> is \<^verbatim>\<open>rtde_control_->moveJ\<close>; \<open>None\<close> for the speed or the acceleration
  means that the argument is left to the library's default.
\<close>

datatype event =
    MoveJ "real list" "real option" "real option"
  | MoveL "real list" real
  | StopJ real
  | SpeedStop real
  | PublishTrajectoryExecuted
  | ROS_ERROR string
  | ROS_WARN_MinimumTime real

type_synonym 'a result = "failure + 'a"

subsection \<open>Joint-space goals\<close>

text \<open>\<^verbatim>\<open>Eigen::maxCoeff\<close> of a non-empty coefficient list.\<close>

fun maxCoeff :: "real list \<Rightarrow> real result" where
  "maxCoeff [] = Inl EigenSizeMismatch"
| "maxCoeff (c # cs) = Inr (foldl max c cs)"

text \<open>Line 80: \<^verbatim>\<open>(desired_pose - actual_pose).array().abs().maxCoeff()\<close>.\<close>

definition path_length :: "real list \<Rightarrow> real list \<Rightarrow> real result" where
  "path_length desired_pose actual_pose =
     (if length desired_pose \<noteq> length actual_pose then Inl EigenSizeMismatch
      else maxCoeff (map2 (\<lambda>d a. \<bar>d - a\<bar>) desired_pose actual_pose))"

text \<open>Lines 85-89: the value of \<^verbatim>\<open>T\<close> after the acceleration check.\<close>

definition used_time :: "real \<Rightarrow> real \<Rightarrow> real \<Rightarrow> real" where
  "used_time acceleration LP T =
     (if acceleration < 4 * LP / T ^ 2 then sqrt (4 * LP / acceleration) else T)"

text \<open>Line 92: the acceleration time \<^verbatim>\<open>ta\<close>; \<^verbatim>\<open>10e-12\<close> is \<open>10 / 10 ^ 12\<close>.\<close>

definition accel_time :: "real \<Rightarrow> real \<Rightarrow> real \<Rightarrow> real" where
  "accel_time acceleration LP T =
     T / 2 - 0.5 * sqrt ((T ^ 2 * acceleration - 4 * LP) / acceleration + 10 / 10 ^ 12)"

definition jointGoalCallback ::
  "params \<Rightarrow> JointTrajectoryPoint \<Rightarrow> RTDEController \<Rightarrow> (RTDEController \<times> event list) result" where
  "jointGoalCallback P msg st =
     (if length (positions msg) \<noteq> 6
      then Inr (st, [ROS_ERROR ''ERROR: Received Joint Position Goal Size != 6''])
      else if time_from_start msg = 0
      then Inr (st, [ROS_ERROR ''ERROR: Desired Time = 0''])
      else if list_ex (\<lambda>q. \<bar>q\<bar> > JOINT_LIMITS P) (positions msg)
      then Inr (st, [ROS_ERROR ''ERROR: Received Joint Position Outside Joint Limits''])
      else
        (case path_length (positions msg) (actual_joint_position st) of
           Inl f \<Rightarrow> Inl f
         | Inr LP \<Rightarrow>
            (let acceleration = ACCELERATION P;
                 T = used_time acceleration LP (time_from_start msg);
                 warn = (if acceleration < 4 * LP / (time_from_start msg) ^ 2
                         then [ROS_WARN_MinimumTime T] else []);
                 ta = accel_time acceleration LP T;
                 velocity = ta * acceleration
             in if velocity > JOINT_VELOCITY_MAX P
                then Inr (st, warn @ [ROS_ERROR ''Requested Velocity > Maximum Velocity''])
                else Inr (st\<lparr>new_trajectory_received := False\<rparr>,
                          warn @ [MoveJ (positions msg) (Some velocity) (Some acceleration),
                                  PublishTrajectoryExecuted]))))"

subsection \<open>Trajectories, Cartesian goals, stop requests\<close>

definition jointTrajectoryCallback :: "JointTrajectory \<Rightarrow> RTDEController \<Rightarrow> RTDEController" where
  "jointTrajectoryCallback msg st =
     st\<lparr>desired_trajectory := msg, new_trajectory_received := True\<rparr>"

subsection \<open>Pose conversion\<close>

text \<open>
  The conversions between quaternions and angle-axis pairs are Eigen's (Geometry module,
  \<^verbatim>\<open>AngleAxis.h\<close>, \<^verbatim>\<open>Quaternion.h\<close>, \<^verbatim>\<open>Dot.h\<close>), written over the reals. Every division is
  checked: a zero divisor is the failure \<open>DivisionByZero\<close>.
\<close>

type_synonym Vector3d = "real \<times> real \<times> real"

text \<open>The C library's \<^verbatim>\<open>atan2(y, x)\<close>.\<close>

definition atan2 :: "real \<Rightarrow> real \<Rightarrow> real" where
  "atan2 y x =
     (if x > 0 then arctan (y / x)
      else if x < 0 then (if y \<ge> 0 then arctan (y / x) + pi else arctan (y / x) - pi)
      else if y > 0 then pi / 2
      else if y < 0 then - (pi / 2)
      else 0)"

definition squaredNorm :: "Vector3d \<Rightarrow> real" where
  "squaredNorm v = (case v of (a, b, c) \<Rightarrow> a ^ 2 + b ^ 2 + c ^ 2)"

definition vec_norm :: "Vector3d \<Rightarrow> real" where
  "vec_norm v = sqrt (squaredNorm v)"

definition vec_div :: "Vector3d \<Rightarrow> real \<Rightarrow> Vector3d result" where
  "vec_div v s =
     (case v of (a, b, c) \<Rightarrow> if s = 0 then Inl DivisionByZero else Inr (a / s, b / s, c / s))"

definition vec_scale :: "Vector3d \<Rightarrow> real \<Rightarrow> Vector3d" where
  "vec_scale v s = (case v of (a, b, c) \<Rightarrow> (a * s, b * s, c * s))"

text \<open>\<^verbatim>\<open>MatrixBase::normalized()\<close>: the vector itself when its squared norm is not positive.\<close>

definition normalized :: "Vector3d \<Rightarrow> Vector3d result" where
  "normalized v = (let z = squaredNorm v in if z > 0 then vec_div v (sqrt z) else Inr v)"

text \<open>
  \<^verbatim>\<open>AngleAxisd(quaternion)\<close>, the pair (angle, axis). Eigen recomputes a norm below the
  machine epsilon by \<^verbatim>\<open>stableNorm()\<close>, which is the same real number.
\<close>

definition AngleAxis_of_Quaternion :: "Quaternion \<Rightarrow> (real \<times> Vector3d) result" where
  "AngleAxis_of_Quaternion q =
     (let v = (qx q, qy q, qz q); n = vec_norm v
      in if n \<noteq> 0
         then (case vec_div v (if qw q < 0 then - n else n) of
                 Inl f \<Rightarrow> Inl f
               | Inr axis \<Rightarrow> Inr (2 * atan2 n \<bar>qw q\<bar>, axis))
         else Inr (0, (1, 0, 0)))"

text \<open>\<^verbatim>\<open>Quaterniond(AngleAxisd(angle, axis))\<close>.\<close>

definition Quaternion_of_AngleAxis :: "real \<Rightarrow> Vector3d \<Rightarrow> Quaternion" where
  "Quaternion_of_AngleAxis angle axis =
     (case axis of (a, b, c) \<Rightarrow>
        \<lparr>qx = sin (0.5 * angle) * a, qy = sin (0.5 * angle) * b,
         qz = sin (0.5 * angle) * c, qw = cos (0.5 * angle)\<rparr>)"

definition Pose2RTDE :: "Pose \<Rightarrow> real list result" where
  "Pose2RTDE pose =
     (case AngleAxis_of_Quaternion (orientation pose) of
        Inl f \<Rightarrow> Inl f
      | Inr (angle, axis) \<Rightarrow>
         (case vec_scale axis angle of (e0, e1, e2) \<Rightarrow>
            Inr [px (position pose), py (position pose), pz (position pose), e0, e1, e2]))"

definition RTDE2Pose :: "real list \<Rightarrow> Pose result" where
  "RTDE2Pose rtde_pose =
     (if length rtde_pose < 6 then Inl OutOfBounds
      else
        (let angle = sqrt ((rtde_pose ! 3) ^ 2 + (rtde_pose ! 4) ^ 2 + (rtde_pose ! 5) ^ 2)
         in case normalized (rtde_pose ! 3, rtde_pose ! 4, rtde_pose ! 5) of
              Inl f \<Rightarrow> Inl f
            | Inr axis \<Rightarrow>
               Inr \<lparr>position = \<lparr>px = rtde_pose ! 0, py = rtde_pose ! 1, pz = rtde_pose ! 2\<rparr>,
                    orientation = Quaternion_of_AngleAxis angle axis\<rparr>))"

definition cartesianGoalCallback ::
  "CartesianPoint \<Rightarrow> RTDEController \<Rightarrow> (RTDEController \<times> event list) result" where
  "cartesianGoalCallback msg st =
     (case Pose2RTDE (cartesian_pose msg) of
        Inl f \<Rightarrow> Inl f
      | Inr desired_pose \<Rightarrow>
         Inr (st\<lparr>new_trajectory_received := False\<rparr>,
              [MoveL desired_pose (velocity msg), PublishTrajectoryExecuted]))"

definition stopRobotCallback :: "RTDEController \<Rightarrow> RTDEController \<times> event list" where
  "stopRobotCallback st = (st\<lparr>new_trajectory_received := False\<rparr>, [SpeedStop 2])"

subsection \<open>The control loop\<close>

text \<open>
  \<^verbatim>\<open>ros::spinOnce()\<close> runs the callbacks of the requests that are pending, in order. One
  tick of \<^verbatim>\<open>spinner\<close> takes the pending requests and the two readings of the robot.
\<close>

datatype callback =
    TrajectoryCommand JointTrajectory
  | JointGoalCommand JointTrajectoryPoint
  | CartesianGoalCommand CartesianPoint
  | StopRobot

record tick =
  pending :: "callback list"
  getActualQ :: "real list"
  getActualTCPPose :: "real list"

fun run_callback ::
  "params \<Rightarrow> callback \<Rightarrow> RTDEController \<Rightarrow> (RTDEController \<times> event list) result" where
  "run_callback P (TrajectoryCommand msg) st = Inr (jointTrajectoryCallback msg st, [])"
| "run_callback P (JointGoalCommand msg) st = jointGoalCallback P msg st"
| "run_callback P (CartesianGoalCommand msg) st = cartesianGoalCallback msg st"
| "run_callback P StopRobot st = Inr (stopRobotCallback st)"

fun spinOnce ::
  "params \<Rightarrow> callback list \<Rightarrow> RTDEController \<Rightarrow> (RTDEController \<times> event list) result" where
  "spinOnce P [] st = Inr (st, [])"
| "spinOnce P (c # cs) st =
     (case run_callback P c st of
        Inl f \<Rightarrow> Inl f
      | Inr (st1, ev1) \<Rightarrow>
         (case spinOnce P cs st1 of
            Inl f \<Rightarrow> Inl f
          | Inr (st2, ev2) \<Rightarrow> Inr (st2, ev1 @ ev2)))"

text \<open>
  Lines 407-437: the trajectory part of \<^verbatim>\<open>spinner\<close>. The local \<^verbatim>\<open>next_point\<close>, which copies
  four fields of \<^verbatim>\<open>points[0]\<close>, is not used by the source after it is filled; reading
  \<^verbatim>\<open>points[0]\<close> of an empty vector is the failure \<open>OutOfBounds\<close>.
\<close>

definition move_to_trajectory_goal ::
  "RTDEController \<Rightarrow> (RTDEController \<times> event list) result" where
  "move_to_trajectory_goal st =
     (if new_trajectory_received st
      then (case points (desired_trajectory st) of
              [] \<Rightarrow> Inl OutOfBounds
            | p # rest \<Rightarrow>
               (let st1 = st\<lparr>desired_trajectory := (desired_trajectory st)\<lparr>points := rest\<rparr>\<rparr>
                in if length rest = 0
                   then Inr (st1\<lparr>new_trajectory_received := False\<rparr>,
                             [MoveJ (positions p) None None, PublishTrajectoryExecuted, StopJ 2])
                   else Inr (st1, [MoveJ (positions p) None None])))
      else Inr (st, []))"

definition spinner ::
  "params \<Rightarrow> tick \<Rightarrow> RTDEController \<Rightarrow> (RTDEController \<times> event list) result" where
  "spinner P i st =
     (case spinOnce P (pending i) st of
        Inl f \<Rightarrow> Inl f
      | Inr (st1, ev1) \<Rightarrow>
         (case RTDE2Pose (getActualTCPPose i) of
            Inl f \<Rightarrow> Inl f
          | Inr pose \<Rightarrow>
             (case move_to_trajectory_goal
                     (st1\<lparr>actual_joint_position := getActualQ i, actual_cartesian_pose := pose\<rparr>) of
                Inl f \<Rightarrow> Inl f
              | Inr (st2, ev2) \<Rightarrow> Inr (st2, ev1 @ ev2))))"

text \<open>The loop of \<^verbatim>\<open>main\<close>, for a finite sequence of ticks; the events are kept per tick.\<close>

fun run ::
  "params \<Rightarrow> tick list \<Rightarrow> RTDEController \<Rightarrow> (RTDEController \<times> event list list) result" where
  "run P [] st = Inr (st, [])"
| "run P (i # is) st =
     (case spinner P i st of
        Inl f \<Rightarrow> Inl f
      | Inr (st1, ev) \<Rightarrow>
         (case run P is st1 of
            Inl f \<Rightarrow> Inl f
          | Inr (st2, evs) \<Rightarrow> Inr (st2, ev # evs)))"

subsection \<open>Safety status\<close>

definition robot_mode_msg :: "string list" where
  "robot_mode_msg =
     [''ROBOT_MODE_NO_CONTROLLER'', ''ROBOT_MODE_DISCONNECTED'', ''ROBOT_MODE_CONFIRM_SAFETY'',
      ''ROBOT_MODE_BOOTING'', ''ROBOT_MODE_POWER_OFF'', ''ROBOT_MODE_POWER_ON'',
      ''ROBOT_MODE_IDLE'', ''ROBOT_MODE_BACKDRIVE'', ''ROBOT_MODE_RUNNING'',
      ''ROBOT_MODE_UPDATING_FIRMWARE'']"

text \<open>
  The initialiser of the source has no comma between \<^verbatim>\<open>"VIOLATION"\<close> and \<^verbatim>\<open>"FAULT"\<close>: the two
  literals are one string, and the vector has eight elements.
\<close>

definition safety_mode_msg :: "string list" where
  "safety_mode_msg =
     [''NORMAL'', ''REDUCED'', ''PROTECTIVE_STOP'', ''RECOVERY'', ''SAFEGUARD_STOP'',
      ''SYSTEM_EMERGENCY_STOP'', ''ROBOT_EMERGENCY_STOP'', ''VIOLATIONFAULT'']"

definition safety_status_bits_msg :: "string list" where
  "safety_status_bits_msg =
     [''Is normal mode'', ''Is reduced mode'', ''Is protective stopped'', ''Is recovery mode'',
      ''Is safeguard stopped'', ''Is system emergency stopped'', ''Is robot emergency stopped'',
      ''Is emergency stopped'', ''Is violation'', ''Is fault'', ''Is stopped due to safety'']"

text \<open>
  \<^verbatim>\<open>std::vector::operator[]\<close> with an \<^verbatim>\<open>int\<close> index: a negative index converts to a size
  beyond every vector.
\<close>

definition vector_at :: "'a list \<Rightarrow> int \<Rightarrow> 'a result" where
  "vector_at xs i = (if 0 \<le> i \<and> i < int (length xs) then Inr (xs ! nat i) else Inl OutOfBounds)"

record GetRobotStatusResponse =
  res_robot_mode :: int
  res_robot_mode_msg :: string
  res_safety_mode :: int
  res_safety_mode_msg :: string
  res_safety_status_bits :: int
  res_safety_status_bits_msg :: string
  res_success :: bool

text \<open>
  The arguments are the values returned by \<^verbatim>\<open>getRobotMode()\<close>, \<^verbatim>\<open>getSafetyMode()\<close> (32-bit
  signed) and \<^verbatim>\<open>getSafetyStatusBits()\<close> (32-bit unsigned, converted by \<^verbatim>\<open>int(...)\<close>).
\<close>

definition GetSafetyStatusCallback ::
  "32 word \<Rightarrow> 32 word \<Rightarrow> 32 word \<Rightarrow> GetRobotStatusResponse result" where
  "GetSafetyStatusCallback robot_mode safety_mode safety_status_bits =
     (case vector_at robot_mode_msg (sint robot_mode + 1) of
        Inl f \<Rightarrow> Inl f
      | Inr rm \<Rightarrow>
         (case vector_at safety_mode_msg (sint safety_mode) of
            Inl f \<Rightarrow> Inl f
          | Inr sm \<Rightarrow>
             (case vector_at safety_status_bits_msg (sint safety_status_bits) of
                Inl f \<Rightarrow> Inl f
              | Inr sb \<Rightarrow>
                 Inr \<lparr>res_robot_mode = sint robot_mode, res_robot_mode_msg = rm,
                      res_safety_mode = sint safety_mode, res_safety_mode_msg = sm,
                      res_safety_status_bits = sint safety_status_bits,
                      res_safety_status_bits_msg = sb, res_success = True\<rparr>)))"

subsection \<open>Example inputs\<close>

text \<open>
  The inputs of the scenarios: a controller at the home position, and the limits
  \<open>a_max = 2\<close>, \<open>v_max = 1\<close> and \<open>a_max = 1\<close>, \<open>v_max = 1\<close>.
\<close>

definition joint_goal :: "real list \<Rightarrow> real \<Rightarrow> JointTrajectoryPoint" where
  "joint_goal q T =
     \<lparr>positions = q, velocities = [], accelerations = [], effort = [], time_from_start = T\<rparr>"

definition scenario_params :: params where
  "scenario_params = \<lparr>JOINT_LIMITS = 6.28, JOINT_VELOCITY_MAX = 1, ACCELERATION = 2\<rparr>"

definition unit_params :: params where
  "unit_params = \<lparr>JOINT_LIMITS = 6.28, JOINT_VELOCITY_MAX = 1, ACCELERATION = 1\<rparr>"

definition home_state :: RTDEController where
  "home_state =
     \<lparr>desired_trajectory = \<lparr>joint_names = [], points = []\<rparr>,
      new_trajectory_received = False,
      actual_joint_position = [0, 0, 0, 0, 0, 0],
      actual_cartesian_pose =
        \<lparr>position = \<lparr>px = 0, py = 0, pz = 0\<rparr>,
         orientation = \<lparr>qx = 0, qy = 0, qz = 0, qw = 1\<rparr>\<rparr>\<rparr>"

definition quiet_tick :: tick where
  "quiet_tick = \<lparr>pending = [], getActualQ = [0, 0, 0, 0, 0, 0], getActualTCPPose = [0, 0, 0, 0, 0, 0]\<rparr>"

definition three_points :: JointTrajectory where
  "three_points =
     \<lparr>joint_names = [],
      points = [joint_goal [1, 0, 0, 0, 0, 0] 1, joint_goal [2, 0, 0, 0, 0, 0] 2,
                joint_goal [3, 0, 0, 0, 0, 0] 3]\<rparr>"

definition three_points_timed :: JointTrajectory where
  "three_points_timed =
     \<lparr>joint_names = [],
      points = map (\<lambda>p. p\<lparr>velocities := [1, 1, 1, 1, 1, 1], accelerations := [2, 2, 2, 2, 2, 2],
                             effort := [3, 3, 3, 3, 3, 3], time_from_start := 9\<rparr>)
                 (points three_points)\<rparr>"

definition empty_trajectory :: JointTrajectory where
  "empty_trajectory = \<lparr>joint_names = [], points = []\<rparr>"


subsection \<open>Relating two runs\<close>

text \<open>
  Two controller states with the same fields, but for the stored trajectory, whose points
  agree on their positions only; two outcomes that fail alike or succeed with such states
  and the same events.
\<close>

abbreviation same_positions :: "RTDEController \<Rightarrow> RTDEController \<Rightarrow> bool" where
  "same_positions s1 s2 \<equiv>
     new_trajectory_received s2 = new_trajectory_received s1 \<and>
     actual_joint_position s2 = actual_joint_position s1 \<and>
     actual_cartesian_pose s2 = actual_cartesian_pose s1 \<and>
     map positions (points (desired_trajectory s2)) =
       map positions (points (desired_trajectory s1))"

abbreviation same_outcome ::
  "(RTDEController \<times> 'e) result \<Rightarrow> (RTDEController \<times> 'e) result \<Rightarrow> bool" where
  "same_outcome r1 r2 \<equiv> rel_sum (=) (\<lambda>(s1, e1) (s2, e2). same_positions s1 s2 \<and> e1 = e2) r1 r2"



section \<open>Properties\<close>

subsection \<open>Auxiliary facts\<close>

lemma foldl_max_Max: "foldl max c cs = Max (set (c # cs))"
proof -
  have "foldl max c cs = fold max cs c"
    by (simp add: foldl_conv_fold max.commute)
  then show ?thesis by (simp only: Max.set_eq_fold)
qed

lemma maxCoeff_Max: "xs \<noteq> [] \<Longrightarrow> maxCoeff xs = Inr (Max (set xs))"
  by (cases xs) (simp_all only: maxCoeff.simps foldl_max_Max, simp)

lemma path_length_Max:
  assumes "length d = 6" "length c = 6"
  shows "path_length d c = Inr (Max (set (map2 (\<lambda>d a. \<bar>d - a\<bar>) d c)))"
proof -
  have "map2 (\<lambda>d a. \<bar>d - a\<bar>) d c \<noteq> []" using assms by (cases d; cases c) auto
  then show ?thesis using assms by (simp add: path_length_def maxCoeff_Max)
qed


lemma extend_iff:
  assumes "0 < a" "0 < T"
  shows "(a < 4 * L / T ^ 2) \<longleftrightarrow> (T < sqrt (4 * L / a))"
proof -
  have "(a < 4 * L / T ^ 2) \<longleftrightarrow> (a * T ^ 2 < 4 * L)"
    using assms by (simp add: pos_less_divide_eq)
  also have "\<dots> \<longleftrightarrow> (T ^ 2 < 4 * L / a)"
    using assms by (simp add: pos_less_divide_eq mult.commute)
  also have "\<dots> \<longleftrightarrow> (sqrt (T ^ 2) < sqrt (4 * L / a))"
    by (simp only: real_sqrt_less_iff)
  also have "sqrt (T ^ 2) = T" using assms by simp
  finally show ?thesis .
qed

lemma jointGoal_valid:
  assumes "length (positions msg) = 6" "time_from_start msg \<noteq> 0"
    "\<not> list_ex (\<lambda>q. \<bar>q\<bar> > JOINT_LIMITS P) (positions msg)"
    "path_length (positions msg) (actual_joint_position st) = Inr LP"
  shows "jointGoalCallback P msg st =
     (let acceleration = ACCELERATION P;
          T = used_time acceleration LP (time_from_start msg);
          warn = (if acceleration < 4 * LP / (time_from_start msg) ^ 2
                  then [ROS_WARN_MinimumTime T] else []);
          velocity = accel_time acceleration LP T * acceleration
      in if velocity > JOINT_VELOCITY_MAX P
         then Inr (st, warn @ [ROS_ERROR ''Requested Velocity > Maximum Velocity''])
         else Inr (st\<lparr>new_trajectory_received := False\<rparr>,
                   warn @ [MoveJ (positions msg) (Some velocity) (Some acceleration),
                           PublishTrajectoryExecuted]))"
  using assms by (simp add: jointGoalCallback_def Let_def)

lemma accel_time_le_half:
  assumes "0 \<le> (T ^ 2 * a - 4 * L) / a + 10 / 10 ^ 12"
  shows "accel_time a L T \<le> T / 2"
  unfolding accel_time_def using real_sqrt_ge_zero [OF assms] by simp

subsection \<open>Validation of joint-space goals\<close>

text \<open>
  C1 (as amended). A joint-space goal whose position vector does not have six entries,
  whose duration is zero, or one of whose positions lies outside the joint limits is
  dropped: the callback returns the controller state as it was, reports one error and
  issues no command to the robot.
\<close>

theorem jointGoal_invalid_dropped:
  assumes "length (positions msg) \<noteq> 6 \<or> time_from_start msg = 0 \<or>
           list_ex (\<lambda>q. \<bar>q\<bar> > JOINT_LIMITS P) (positions msg)"
  shows "\<exists>e. jointGoalCallback P msg st = Inr (st, [ROS_ERROR e])"
  using assms by (auto simp: jointGoalCallback_def)

text \<open>
  The theorem at three goals: five positions; a zero duration; a position of \<open>-7\<close> with
  joint limits of \<open>6.28\<close>.
\<close>

theorem jointGoal_invalid_dropped_witness:
  "(length (positions (joint_goal [0, 0, 0, 0, 0] 2)) \<noteq> 6 \<and>
    (\<exists>e. jointGoalCallback scenario_params (joint_goal [0, 0, 0, 0, 0] 2) home_state =
       Inr (home_state, [ROS_ERROR e]))) \<and>
   (time_from_start (joint_goal [1/2, 0, 0, 0, 0, 0] 0) = 0 \<and>
    (\<exists>e. jointGoalCallback scenario_params (joint_goal [1/2, 0, 0, 0, 0, 0] 0) home_state =
       Inr (home_state, [ROS_ERROR e]))) \<and>
   (list_ex (\<lambda>q. \<bar>q\<bar> > JOINT_LIMITS scenario_params) (positions (joint_goal [0, 0, - 7, 0, 0, 0] 2)) \<and>
    (\<exists>e. jointGoalCallback scenario_params (joint_goal [0, 0, - 7, 0, 0, 0] 2) home_state =
       Inr (home_state, [ROS_ERROR e])))"
proof -
  have a: "length (positions (joint_goal [0, 0, 0, 0, 0] 2)) \<noteq> 6"
    by (simp add: joint_goal_def)
  have b: "time_from_start (joint_goal [1/2, 0, 0, 0, 0, 0] 0) = 0"
    by (simp add: joint_goal_def)
  have c: "list_ex (\<lambda>q. \<bar>q\<bar> > JOINT_LIMITS scenario_params)
             (positions (joint_goal [0, 0, - 7, 0, 0, 0] 2))"
    by (simp add: joint_goal_def scenario_params_def)
  show ?thesis
    using a b c
      jointGoal_invalid_dropped [of "joint_goal [0, 0, 0, 0, 0] 2" scenario_params home_state]
      jointGoal_invalid_dropped [of "joint_goal [1/2, 0, 0, 0, 0, 0] 0" scenario_params home_state]
      jointGoal_invalid_dropped [of "joint_goal [0, 0, - 7, 0, 0, 0] 2" scenario_params home_state]
    by blast
qed

text \<open>
  C1 as stated fails for a negative duration: the callback compares the duration with
  zero only, so a goal with duration \<open>-2\<close> passes the checks and is moved to, with a
  negative speed.
\<close>

theorem negative_duration_goal_dispatched:
  "time_from_start (joint_goal [1/2, 0, 0, 0, 0, 0] (- 2)) < 0 \<and>
   jointGoalCallback scenario_params (joint_goal [1/2, 0, 0, 0, 0, 0] (- 2)) home_state =
     Inr (home_state\<lparr>new_trajectory_received := False\<rparr>,
          [MoveJ [1/2, 0, 0, 0, 0, 0] (Some ((- 2 / 2 - 0.5 * sqrt (3 + 10 / 10 ^ 12)) * 2)) (Some 2),
           PublishTrajectoryExecuted])"
proof -
  have "\<not> 3 < - sqrt (300000000001 / 100000000000 :: real)"
    using real_sqrt_ge_zero [of "300000000001 / 100000000000"] by linarith
  then show ?thesis
    by (simp add: jointGoalCallback_def joint_goal_def scenario_params_def home_state_def
        path_length_def used_time_def accel_time_def Let_def)
qed

subsection \<open>Minimum duration\<close>

text \<open>
  C2 (as amended). For a goal that passes the checks and has a positive duration \<open>T\<close>,
  with \<open>L\<close> the largest distance over the six axes and \<open>T_min = sqrt (4 L / a_max)\<close>: when
  \<open>T < T_min\<close> the callback warns, and plans with \<open>T_min\<close>; otherwise it does not warn, and
  plans with \<open>T\<close>. In both cases the goal then goes on to the velocity check.
\<close>

theorem jointGoal_duration_extension:
  assumes "length (positions msg) = 6" "length (actual_joint_position st) = 6"
    and "\<not> list_ex (\<lambda>q. \<bar>q\<bar> > JOINT_LIMITS P) (positions msg)"
    and "0 < time_from_start msg" "0 < ACCELERATION P"
  shows
    "(let L = Max (set (map2 (\<lambda>d c. \<bar>d - c\<bar>) (positions msg) (actual_joint_position st)));
          T_min = sqrt (4 * L / ACCELERATION P);
          T = (if time_from_start msg < T_min then T_min else time_from_start msg);
          warn = (if time_from_start msg < T_min then [ROS_WARN_MinimumTime T_min] else []);
          v = accel_time (ACCELERATION P) L T * ACCELERATION P
      in jointGoalCallback P msg st =
           (if v > JOINT_VELOCITY_MAX P
            then Inr (st, warn @ [ROS_ERROR ''Requested Velocity > Maximum Velocity''])
            else Inr (st\<lparr>new_trajectory_received := False\<rparr>,
                      warn @ [MoveJ (positions msg) (Some v) (Some (ACCELERATION P)),
                              PublishTrajectoryExecuted])))"
proof -
  let ?L = "Max (set (map2 (\<lambda>d c. \<bar>d - c\<bar>) (positions msg) (actual_joint_position st)))"
  have pl: "path_length (positions msg) (actual_joint_position st) = Inr ?L"
    using assms(1,2) by (rule path_length_Max)
  have T0: "time_from_start msg \<noteq> 0" using assms(4) by simp
  have iff: "(ACCELERATION P < 4 * ?L / (time_from_start msg) ^ 2) \<longleftrightarrow>
             (time_from_start msg < sqrt (4 * ?L / ACCELERATION P))"
    using assms(5,4) by (rule extend_iff)
  show ?thesis
    unfolding jointGoal_valid [OF assms(1) T0 assms(3) pl] used_time_def iff Let_def
    by simp
qed

text \<open>
  The theorem at the scenario \<open>L = 1\<close>, \<open>a_max = 1\<close>, \<open>T = 0.5\<close>: the duration becomes \<open>2\<close>.
\<close>

theorem jointGoal_duration_extension_witness:
  "0 < time_from_start (joint_goal [1, 0, 0, 0, 0, 0] (1/2)) \<and>
   0 < ACCELERATION unit_params \<and>
   time_from_start (joint_goal [1, 0, 0, 0, 0, 0] (1/2)) < sqrt (4 * 1 / ACCELERATION unit_params) \<and>
   jointGoalCallback unit_params (joint_goal [1, 0, 0, 0, 0, 0] (1/2)) home_state =
     Inr (home_state\<lparr>new_trajectory_received := False\<rparr>,
          [ROS_WARN_MinimumTime 2,
           MoveJ [1, 0, 0, 0, 0, 0] (Some (accel_time 1 1 2 * 1)) (Some 1),
           PublishTrajectoryExecuted])"
proof -
  have v: "\<not> accel_time 1 1 2 * 1 > 1"
    by (simp add: accel_time_def)
  show ?thesis
    using jointGoal_duration_extension [of "joint_goal [1, 0, 0, 0, 0, 0] (1/2)" home_state unit_params] v
    by (simp add: joint_goal_def home_state_def unit_params_def Let_def)
qed

text \<open>
  C2 as stated fails for a negative duration: with \<open>L = 0.5\<close>, \<open>a_max = 2\<close> and \<open>T = -3\<close> the
  minimum time is \<open>1\<close>, yet the callback keeps \<open>T = -3\<close> and does not warn, because it compares
  \<open>a_max\<close> with \<open>4 L / T\<^sup>2\<close>.
\<close>

theorem negative_duration_not_extended:
  "time_from_start (joint_goal [1/2, 0, 0, 0, 0, 0] (- 3))
     < sqrt (4 * (1/2) / ACCELERATION scenario_params) \<and>
   jointGoalCallback scenario_params (joint_goal [1/2, 0, 0, 0, 0, 0] (- 3)) home_state =
     Inr (home_state\<lparr>new_trajectory_received := False\<rparr>,
          [MoveJ [1/2, 0, 0, 0, 0, 0] (Some (accel_time 2 (1/2) (- 3) * 2)) (Some 2),
           PublishTrajectoryExecuted])"
proof -
  have "accel_time 2 (1/2) (- 3) \<le> (- 3) / 2"
    by (rule accel_time_le_half) simp
  then have v: "\<not> accel_time 2 (1/2) (- 3) * 2 > 1"
    by simp
  have pl: "path_length [1/2, 0, 0, 0, 0, 0] [0, 0, 0, 0, 0, 0] = Inr (1/2)"
    by (simp add: path_length_def)
  show ?thesis
    using v pl
    by (simp add: jointGoalCallback_def joint_goal_def scenario_params_def home_state_def
        used_time_def Let_def)
qed


subsection \<open>The velocity profile\<close>




subsection \<open>The velocity limit\<close>

text \<open>
  C4. For a goal that reaches the velocity check, with \<open>v = ta a_max\<close> the computed
  velocity: when \<open>v\<close> exceeds \<^verbatim>\<open>JOINT_VELOCITY_MAX\<close> the callback reports the velocity error,
  leaves the state as it was and issues no \<^verbatim>\<open>moveJ\<close>; and every \<^verbatim>\<open>moveJ\<close> it issues carries
  the speed \<open>v\<close> itself, which is then within the limit, never a clamped value.
\<close>

theorem jointGoal_velocity_limit:
  assumes "length (positions msg) = 6" "time_from_start msg \<noteq> 0"
    and "\<not> list_ex (\<lambda>q. \<bar>q\<bar> > JOINT_LIMITS P) (positions msg)"
    and "path_length (positions msg) (actual_joint_position st) = Inr LP"
  shows
    "\<exists>st' evs. jointGoalCallback P msg st = Inr (st', evs) \<and>
       (let T = used_time (ACCELERATION P) LP (time_from_start msg);
            v = accel_time (ACCELERATION P) LP T * ACCELERATION P
        in (v > JOINT_VELOCITY_MAX P \<longrightarrow>
              st' = st \<and> ROS_ERROR ''Requested Velocity > Maximum Velocity'' \<in> set evs \<and>
              (\<forall>q s a. MoveJ q s a \<notin> set evs)) \<and>
           (\<forall>q s a. MoveJ q s a \<in> set evs \<longrightarrow> s = Some v \<and> v \<le> JOINT_VELOCITY_MAX P))"
  unfolding jointGoal_valid [OF assms] Let_def by auto

text \<open>
  The theorem at \<open>L = 3\<close>, \<open>T = 3\<close>, \<open>a_max = 2\<close>, \<open>v_max = 1\<close>: the velocity
  \<open>3 - sqrt (3 + 10e-12)\<close> exceeds the limit and the goal is rejected.
\<close>

theorem jointGoal_velocity_limit_witness:
  "accel_time 2 3 (used_time 2 3 3) * 2 > JOINT_VELOCITY_MAX scenario_params \<and>
   (\<exists>evs. jointGoalCallback scenario_params (joint_goal [3, 0, 0, 0, 0, 0] 3) home_state =
        Inr (home_state, evs) \<and>
      ROS_ERROR ''Requested Velocity > Maximum Velocity'' \<in> set evs \<and>
      (\<forall>q s a. MoveJ q s a \<notin> set evs))"
proof -
  have "sqrt (3 + 10 / 10 ^ 12 :: real) < 2"
    by (rule real_less_lsqrt) simp_all
  then have v: "accel_time 2 3 (used_time 2 3 3) * 2 > JOINT_VELOCITY_MAX scenario_params"
    by (simp add: accel_time_def used_time_def scenario_params_def)
  have pl: "path_length (positions (joint_goal [3, 0, 0, 0, 0, 0] 3))
              (actual_joint_position home_state) = Inr 3"
    by (simp add: path_length_def joint_goal_def home_state_def)
  have h: "length (positions (joint_goal [3, 0, 0, 0, 0, 0] 3)) = 6"
    "time_from_start (joint_goal [3, 0, 0, 0, 0, 0] 3) \<noteq> 0"
    "\<not> list_ex (\<lambda>q. \<bar>q\<bar> > JOINT_LIMITS scenario_params) (positions (joint_goal [3, 0, 0, 0, 0, 0] 3))"
    by (simp_all add: joint_goal_def scenario_params_def)
  have acc: "ACCELERATION scenario_params = 2" by (simp add: scenario_params_def)
  have T: "time_from_start (joint_goal [3, 0, 0, 0, 0, 0] 3) = 3" by (simp add: joint_goal_def)
  from jointGoal_velocity_limit [OF h pl] v show ?thesis
    unfolding Let_def acc T by blast
qed

subsection \<open>Trajectories\<close>

lemma normalized_ok: "\<exists>axis. normalized v = Inr axis"
proof (cases v)
  case (fields a b c)
  show ?thesis
  proof (cases "squaredNorm v > 0")
    case True
    then have "sqrt (squaredNorm v) \<noteq> 0" by simp
    then show ?thesis using True fields by (simp add: normalized_def vec_div_def Let_def)
  next
    case False
    then show ?thesis using fields by (simp add: normalized_def Let_def)
  qed
qed

lemma RTDE2Pose_ok: "6 \<le> length r \<Longrightarrow> \<exists>pose. RTDE2Pose r = Inr pose"
  using normalized_ok [of "(r ! 3, r ! 4, r ! 5)"]
  by (auto simp: RTDE2Pose_def Let_def)

lemma spinner_quiet:
  assumes "pending i = []" "6 \<le> length (getActualTCPPose i)"
  shows "\<exists>pose. spinner P i st =
           move_to_trajectory_goal
             (st\<lparr>actual_joint_position := getActualQ i, actual_cartesian_pose := pose\<rparr>)"
proof -
  from RTDE2Pose_ok [OF assms(2)] obtain pose where "RTDE2Pose (getActualTCPPose i) = Inr pose" ..
  then have "spinner P i st =
           move_to_trajectory_goal
             (st\<lparr>actual_joint_position := getActualQ i, actual_cartesian_pose := pose\<rparr>)"
    using assms(1) by (simp add: spinner_def split: sum.splits)
  then show ?thesis ..
qed

lemma run_append:
  "run P (t1 @ t2) st =
     (case run P t1 st of
        Inl f \<Rightarrow> Inl f
      | Inr (s1, e1) \<Rightarrow>
         (case run P t2 s1 of Inl f \<Rightarrow> Inl f | Inr (s2, e2) \<Rightarrow> Inr (s2, e1 @ e2)))"
  by (induction t1 arbitrary: st) (auto split: sum.splits)

lemma run_idle:
  assumes "\<not> new_trajectory_received st"
    and "\<forall>i\<in>set ticks. pending i = [] \<and> 6 \<le> length (getActualTCPPose i)"
  shows "\<exists>st'. run P ticks st = Inr (st', replicate (length ticks) []) \<and>
           \<not> new_trajectory_received st' \<and> desired_trajectory st' = desired_trajectory st"
  using assms
proof (induction ticks arbitrary: st)
  case Nil
  then show ?case by simp
next
  case (Cons i ticks)
  from Cons.prems(2) have q: "pending i = []" "6 \<le> length (getActualTCPPose i)" by simp_all
  from spinner_quiet [OF q] obtain pose where
    sp: "spinner P i st = move_to_trajectory_goal
             (st\<lparr>actual_joint_position := getActualQ i, actual_cartesian_pose := pose\<rparr>)" ..
  let ?s = "st\<lparr>actual_joint_position := getActualQ i, actual_cartesian_pose := pose\<rparr>"
  have sp': "spinner P i st = Inr (?s, [])"
    using Cons.prems(1) by (simp add: sp move_to_trajectory_goal_def)
  have "\<not> new_trajectory_received ?s" using Cons.prems(1) by simp
  from Cons.IH [OF this] Cons.prems(2) obtain st' where
    "run P ticks ?s = Inr (st', replicate (length ticks) [])"
    "\<not> new_trajectory_received st'" "desired_trajectory st' = desired_trajectory ?s"
    by auto
  then show ?case by (simp add: sp')
qed

lemma run_active:
  assumes "new_trajectory_received st" "points (desired_trajectory st) = ps @ [p]"
    and "\<forall>i\<in>set ticks. pending i = [] \<and> 6 \<le> length (getActualTCPPose i)"
    and "length ticks = Suc (length ps)"
  shows "\<exists>st'. run P ticks st =
           Inr (st', map (\<lambda>q. [MoveJ (positions q) None None]) ps @
                     [[MoveJ (positions p) None None, PublishTrajectoryExecuted, StopJ 2]]) \<and>
           \<not> new_trajectory_received st' \<and> points (desired_trajectory st') = []"
  using assms
proof (induction ps arbitrary: st ticks)
  case Nil
  then obtain i where ticks: "ticks = [i]" by (cases ticks) auto
  with Nil.prems(3) have q: "pending i = []" "6 \<le> length (getActualTCPPose i)" by simp_all
  from spinner_quiet [OF q] obtain pose where
    sp: "spinner P i st = move_to_trajectory_goal
             (st\<lparr>actual_joint_position := getActualQ i, actual_cartesian_pose := pose\<rparr>)" ..
  show ?case using Nil.prems(1,2)
    by (simp add: ticks sp move_to_trajectory_goal_def)
next
  case (Cons x ps)
  then obtain i rest where ticks: "ticks = i # rest" "length rest = Suc (length ps)"
    by (cases ticks) auto
  with Cons.prems(3) have q: "pending i = []" "6 \<le> length (getActualTCPPose i)" by simp_all
  from spinner_quiet [OF q] obtain pose where
    sp: "spinner P i st = move_to_trajectory_goal
             (st\<lparr>actual_joint_position := getActualQ i, actual_cartesian_pose := pose\<rparr>)" ..
  let ?s = "st\<lparr>actual_joint_position := getActualQ i, actual_cartesian_pose := pose,
                desired_trajectory := (desired_trajectory st)\<lparr>points := ps @ [p]\<rparr>\<rparr>"
  have sp': "spinner P i st = Inr (?s, [MoveJ (positions x) None None])"
    using Cons.prems(1,2) by (simp add: sp move_to_trajectory_goal_def)
  have a: "new_trajectory_received ?s" "points (desired_trajectory ?s) = ps @ [p]"
    using Cons.prems(1) by simp_all
  have b: "\<forall>i\<in>set rest. pending i = [] \<and> 6 \<le> length (getActualTCPPose i)"
    using Cons.prems(3) ticks by simp
  from Cons.IH [OF a b ticks(2)] obtain st' where
    "run P rest ?s =
       Inr (st', map (\<lambda>q. [MoveJ (positions q) None None]) ps @
                 [[MoveJ (positions p) None None, PublishTrajectoryExecuted, StopJ 2]])"
    "\<not> new_trajectory_received st'" "points (desired_trajectory st') = []"
    by blast
  then show ?case by (simp add: ticks sp')
qed

text \<open>
  C9 (as amended). After a trajectory with the points \<open>p\<^sub>1, \<dots>, p\<^sub>n\<close> (\<open>n \<ge> 1\<close>) has been received, the
  following ticks, as long as no request (joint goal, Cartesian goal, stop, trajectory)
  is pending in them, dispatch \<^verbatim>\<open>moveJ\<close> of exactly one point each, in the order of the
  trajectory; the tick of the last point also publishes
  "trajectory executed" once and stops the robot with \<^verbatim>\<open>stopJ(2.0)\<close>; every later tick
  dispatches nothing, and the controller is left without a trajectory.
\<close>

theorem trajectory_fifo:
  assumes "points traj = ps @ [p]"
    and "\<forall>i\<in>set ticks. pending i = [] \<and> 6 \<le> length (getActualTCPPose i)"
    and "length ticks = length ps + 1 + k"
  shows "\<exists>st'. run P ticks (jointTrajectoryCallback traj st) =
           Inr (st', map (\<lambda>q. [MoveJ (positions q) None None]) ps @
                     [[MoveJ (positions p) None None, PublishTrajectoryExecuted, StopJ 2]] @
                     replicate k []) \<and>
           \<not> new_trajectory_received st' \<and> points (desired_trajectory st') = []"
proof -
  let ?n = "Suc (length ps)"
  let ?t1 = "take ?n ticks" and ?t2 = "drop ?n ticks"
  let ?s = "jointTrajectoryCallback traj st"
  have s: "new_trajectory_received ?s" "points (desired_trajectory ?s) = ps @ [p]"
    using assms(1) by (simp_all add: jointTrajectoryCallback_def)
  have q1: "\<forall>i\<in>set ?t1. pending i = [] \<and> 6 \<le> length (getActualTCPPose i)"
    using assms(2) by (meson in_set_takeD)
  have q2: "\<forall>i\<in>set ?t2. pending i = [] \<and> 6 \<le> length (getActualTCPPose i)"
    using assms(2) by (meson in_set_dropD)
  have l1: "length ?t1 = ?n" and l2: "length ?t2 = k" using assms(3) by simp_all
  from run_active [OF s q1 l1] obtain s1 where
    r1: "run P ?t1 ?s =
       Inr (s1, map (\<lambda>q. [MoveJ (positions q) None None]) ps @
                 [[MoveJ (positions p) None None, PublishTrajectoryExecuted, StopJ 2]])"
    and s1: "\<not> new_trajectory_received s1" "points (desired_trajectory s1) = []"
    by blast
  from run_idle [OF s1(1) q2] l2 obtain s2 where
    r2: "run P ?t2 s1 = Inr (s2, replicate k [])"
    and s2: "\<not> new_trajectory_received s2" "desired_trajectory s2 = desired_trajectory s1"
    by auto
  have "run P ticks ?s = run P (?t1 @ ?t2) ?s" by simp
  also have "\<dots> = Inr (s2, (map (\<lambda>q. [MoveJ (positions q) None None]) ps @
                 [[MoveJ (positions p) None None, PublishTrajectoryExecuted, StopJ 2]]) @ replicate k [])"
    unfolding run_append r1 by (simp add: r2)
  finally show ?thesis using s2 s1 by simp
qed

lemma jointGoalCallback_same:
  assumes "same_positions s1 s2"
  shows "same_outcome (jointGoalCallback P msg s1) (jointGoalCallback P msg s2)"
  using assms unfolding jointGoalCallback_def Let_def
  by (simp split: sum.splits)

lemma run_callback_same:
  assumes "same_positions s1 s2"
  shows "same_outcome (run_callback P c s1) (run_callback P c s2)"
proof (cases c)
  case (TrajectoryCommand msg)
  from assms show ?thesis
    by (simp add: TrajectoryCommand jointTrajectoryCallback_def)
next
  case (JointGoalCommand msg)
  then show ?thesis using jointGoalCallback_same [OF assms] by simp
next
  case (CartesianGoalCommand msg)
  from assms show ?thesis
    by (simp add: CartesianGoalCommand cartesianGoalCallback_def split: sum.splits)
next
  case StopRobot
  from assms show ?thesis
    by (simp add: StopRobot stopRobotCallback_def)
qed

lemma spinOnce_same:
  assumes "same_positions s1 s2"
  shows "same_outcome (spinOnce P cs s1) (spinOnce P cs s2)"
  using assms
proof (induction cs arbitrary: s1 s2)
  case Nil
  then show ?case by simp
next
  case (Cons c cs)
  show ?case
  proof (cases "run_callback P c s1")
    case (Inl f)
    with run_callback_same [OF Cons.prems, of P c] show ?thesis
      by (cases "run_callback P c s2") simp_all
  next
    case (Inr x)
    obtain a1 e1 where x: "x = (a1, e1)" by (cases x)
    from run_callback_same [OF Cons.prems, of P c] Inr x
    obtain a2 where r2: "run_callback P c s2 = Inr (a2, e1)" and s: "same_positions a1 a2"
      by (cases "run_callback P c s2") auto
    from Cons.IH [OF s] show ?thesis
      by (cases "spinOnce P cs a1"; cases "spinOnce P cs a2") (auto simp: Inr x r2)
  qed
qed

lemma move_to_trajectory_goal_same:
  assumes "same_positions s1 s2"
  shows "same_outcome (move_to_trajectory_goal s1) (move_to_trajectory_goal s2)"
proof (cases "points (desired_trajectory s1)")
  case Nil
  with assms have "points (desired_trajectory s2) = []" by simp
  with Nil assms show ?thesis by (simp add: move_to_trajectory_goal_def)
next
  case (Cons p rest)
  with assms obtain p' rest' where c: "points (desired_trajectory s2) = p' # rest'"
    "positions p' = positions p" "map positions rest' = map positions rest"
    by (cases "points (desired_trajectory s2)") auto
  have len: "(rest' = []) = (rest = [])" using c(3) by (metis map_is_Nil_conv)
  show ?thesis
    using len assms c by (simp add: Cons move_to_trajectory_goal_def Let_def)
qed

lemma spinner_same:
  assumes "same_positions s1 s2"
  shows "same_outcome (spinner P i s1) (spinner P i s2)"
proof (cases "spinOnce P (pending i) s1")
  case (Inl f)
  with spinOnce_same [OF assms, of P "pending i"] show ?thesis
    by (cases "spinOnce P (pending i) s2") (simp_all add: spinner_def)
next
  case (Inr x)
  obtain a1 e1 where x: "x = (a1, e1)" by (cases x)
  from spinOnce_same [OF assms, of P "pending i"] Inr x
  obtain a2 where r2: "spinOnce P (pending i) s2 = Inr (a2, e1)" and s: "same_positions a1 a2"
    by (cases "spinOnce P (pending i) s2") auto
  show ?thesis
  proof (cases "RTDE2Pose (getActualTCPPose i)")
    case (Inl f)
    then show ?thesis by (simp add: spinner_def Inr x r2)
  next
    case pose: (Inr pose)
    let ?b1 = "a1\<lparr>actual_joint_position := getActualQ i, actual_cartesian_pose := pose\<rparr>"
    let ?b2 = "a2\<lparr>actual_joint_position := getActualQ i, actual_cartesian_pose := pose\<rparr>"
    have "same_positions ?b1 ?b2" using s by simp
    from move_to_trajectory_goal_same [OF this] show ?thesis
      by (cases "move_to_trajectory_goal ?b1"; cases "move_to_trajectory_goal ?b2")
         (auto simp: spinner_def Inr x r2 pose)
  qed
qed

lemma run_same:
  assumes "same_positions s1 s2"
  shows "same_outcome (run P ticks s1) (run P ticks s2)"
  using assms
proof (induction ticks arbitrary: s1 s2)
  case Nil
  then show ?case by simp
next
  case (Cons i ticks)
  show ?case
  proof (cases "spinner P i s1")
    case (Inl f)
    with spinner_same [OF Cons.prems, of P i] show ?thesis
      by (cases "spinner P i s2") simp_all
  next
    case (Inr x)
    obtain a1 e1 where x: "x = (a1, e1)" by (cases x)
    from spinner_same [OF Cons.prems, of P i] Inr x
    obtain a2 where r2: "spinner P i s2 = Inr (a2, e1)" and s: "same_positions a1 a2"
      by (cases "spinner P i s2") auto
    from Cons.IH [OF s] show ?thesis
      by (cases "run P ticks a1"; cases "run P ticks a2") (auto simp: Inr x r2)
  qed
qed

text \<open>
  C10. The command for a consumed trajectory point is \<^verbatim>\<open>moveJ\<close> of its positions with the
  default speed and acceleration. Replacing the stored trajectory by one whose points
  have the same positions (and any velocities, accelerations, effort and
  \<^verbatim>\<open>time_from_start\<close>) changes neither the events of any sequence of ticks nor whether it
  fails.
\<close>

theorem trajectory_command_positions_only:
  assumes "map positions (points traj') = map positions (points (desired_trajectory st))"
  shows "map_sum id snd (run P ticks (st\<lparr>desired_trajectory := traj'\<rparr>)) =
           map_sum id snd (run P ticks st) \<and>
         (\<forall>p rest. new_trajectory_received st \<and> points (desired_trajectory st) = p # rest \<longrightarrow>
            (\<exists>st'. move_to_trajectory_goal st =
               Inr (st', MoveJ (positions p) None None #
                         (if rest = [] then [PublishTrajectoryExecuted, StopJ 2] else []))))"
proof -
  have "same_positions st (st\<lparr>desired_trajectory := traj'\<rparr>)" using assms by simp
  from run_same [OF this, of P ticks]
  have "map_sum id snd (run P ticks (st\<lparr>desired_trajectory := traj'\<rparr>)) =
           map_sum id snd (run P ticks st)"
    by (cases "run P ticks st"; cases "run P ticks (st\<lparr>desired_trajectory := traj'\<rparr>)") auto
  moreover have "\<forall>p rest. new_trajectory_received st \<and> points (desired_trajectory st) = p # rest \<longrightarrow>
            (\<exists>st'. move_to_trajectory_goal st =
               Inr (st', MoveJ (positions p) None None #
                         (if rest = [] then [PublishTrajectoryExecuted, StopJ 2] else [])))"
    by (auto simp: move_to_trajectory_goal_def Let_def)
  ultimately show ?thesis by blast
qed

lemma RTDE2Pose_zero:
  "RTDE2Pose [0, 0, 0, 0, 0, 0] =
     Inr \<lparr>position = \<lparr>px = 0, py = 0, pz = 0\<rparr>,
          orientation = \<lparr>qx = 0, qy = 0, qz = 0, qw = 1\<rparr>\<rparr>"
  by (simp add: RTDE2Pose_def normalized_def squaredNorm_def Quaternion_of_AngleAxis_def)

lemma spinner_quiet_tick:
  "spinner P quiet_tick st =
     move_to_trajectory_goal
       (st\<lparr>actual_joint_position := [0, 0, 0, 0, 0, 0],
           actual_cartesian_pose := \<lparr>position = \<lparr>px = 0, py = 0, pz = 0\<rparr>,
             orientation = \<lparr>qx = 0, qy = 0, qz = 0, qw = 1\<rparr>\<rparr>\<rparr>)"
  by (simp add: spinner_def quiet_tick_def RTDE2Pose_zero split: sum.splits)

text \<open>
  C9 at three points and four ticks: the points are dispatched in order, the third tick
  also publishes and stops, the fourth tick does nothing.
\<close>

theorem trajectory_fifo_witness:
  "points three_points =
     [joint_goal [1, 0, 0, 0, 0, 0] 1, joint_goal [2, 0, 0, 0, 0, 0] 2] @ [joint_goal [3, 0, 0, 0, 0, 0] 3] \<and>
   pending quiet_tick = [] \<and> 6 \<le> length (getActualTCPPose quiet_tick) \<and>
   (\<exists>st'. run scenario_params [quiet_tick, quiet_tick, quiet_tick, quiet_tick]
            (jointTrajectoryCallback three_points home_state) =
          Inr (st', [[MoveJ [1, 0, 0, 0, 0, 0] None None], [MoveJ [2, 0, 0, 0, 0, 0] None None],
                     [MoveJ [3, 0, 0, 0, 0, 0] None None, PublishTrajectoryExecuted, StopJ 2], []]) \<and>
          \<not> new_trajectory_received st' \<and> points (desired_trajectory st') = [])"
proof -
  have p: "points three_points =
     [joint_goal [1, 0, 0, 0, 0, 0] 1, joint_goal [2, 0, 0, 0, 0, 0] 2] @ [joint_goal [3, 0, 0, 0, 0, 0] 3]"
    by (simp add: three_points_def)
  have q: "pending quiet_tick = []" "6 \<le> length (getActualTCPPose quiet_tick)"
    by (simp_all add: quiet_tick_def)
  then have b: "\<forall>i\<in>set [quiet_tick, quiet_tick, quiet_tick, quiet_tick].
      pending i = [] \<and> 6 \<le> length (getActualTCPPose i)" by simp
  have l: "length [quiet_tick, quiet_tick, quiet_tick, quiet_tick] =
      length [joint_goal [1, 0, 0, 0, 0, 0] 1, joint_goal [2, 0, 0, 0, 0, 0] 2] + 1 + 1" by simp
  from trajectory_fifo [OF p b l, of scenario_params home_state] p q
  show ?thesis by (simp add: joint_goal_def)
qed

text \<open>
  C9 as stated fails when a request is handled while the trajectory is running: the
  callbacks of a stop request and of an accepted joint goal clear
  \<^verbatim>\<open>new_trajectory_received_\<close>. With three points, a request in the second tick leaves the
  second and third point undispatched, and neither the notification of the trajectory
  nor \<^verbatim>\<open>stopJ\<close> follows.
\<close>

theorem trajectory_interrupted_by_request:
  "map_sum id snd
     (run scenario_params
        [quiet_tick, quiet_tick\<lparr>pending := [StopRobot]\<rparr>, quiet_tick, quiet_tick]
        (jointTrajectoryCallback three_points home_state)) =
     Inr [[MoveJ [1, 0, 0, 0, 0, 0] None None], [SpeedStop 2], [], []] \<and>
   map_sum id snd
     (run scenario_params
        [quiet_tick, quiet_tick\<lparr>pending := [JointGoalCommand (joint_goal [1/2, 0, 0, 0, 0, 0] 2)]\<rparr>,
         quiet_tick, quiet_tick]
        (jointTrajectoryCallback three_points home_state)) =
     Inr [[MoveJ [1, 0, 0, 0, 0, 0] None None],
          [MoveJ [1/2, 0, 0, 0, 0, 0] (Some ((2 / 2 - 0.5 * sqrt (3 + 10 / 10 ^ 12)) * 2)) (Some 2),
           PublishTrajectoryExecuted],
          [], []]"
proof -
  have "sqrt 1 \<le> sqrt (300000000001 / 100000000000 :: real)"
    by (subst real_sqrt_le_iff) simp
  then have v: "1 \<le> sqrt (300000000001 / 100000000000 :: real)" by simp
  have pl: "path_length [1/2, 0, 0, 0, 0, 0] [0, 0, 0, 0, 0, 0] = Inr (1/2)"
    by (simp add: path_length_def)
  have goal: "jointGoalCallback scenario_params (joint_goal [1/2, 0, 0, 0, 0, 0] 2) st =
      Inr (st\<lparr>new_trajectory_received := False\<rparr>,
           [MoveJ [1/2, 0, 0, 0, 0, 0] (Some ((2 / 2 - 0.5 * sqrt (3 + 10 / 10 ^ 12)) * 2)) (Some 2),
            PublishTrajectoryExecuted])"
    if "actual_joint_position st = [0, 0, 0, 0, 0, 0]" for st
    using v pl that
    by (simp add: jointGoalCallback_def joint_goal_def scenario_params_def
        used_time_def accel_time_def Let_def)
  have tick: "spinner P (quiet_tick\<lparr>pending := cs\<rparr>) st =
      (case spinOnce P cs st of
         Inl f \<Rightarrow> Inl f
       | Inr (st1, ev1) \<Rightarrow>
          (case move_to_trajectory_goal
                  (st1\<lparr>actual_joint_position := [0, 0, 0, 0, 0, 0],
                       actual_cartesian_pose := \<lparr>position = \<lparr>px = 0, py = 0, pz = 0\<rparr>,
                         orientation = \<lparr>qx = 0, qy = 0, qz = 0, qw = 1\<rparr>\<rparr>\<rparr>) of
             Inl f \<Rightarrow> Inl f
           | Inr (st2, ev2) \<Rightarrow> Inr (st2, ev1 @ ev2)))" for P cs st
    by (simp add: spinner_def quiet_tick_def RTDE2Pose_zero split: sum.splits)
  have pos: "positions (joint_goal q T) = q" for q T
    by (simp add: joint_goal_def)
  have stop: "map_sum id snd
     (run scenario_params
        [quiet_tick, quiet_tick\<lparr>pending := [StopRobot]\<rparr>, quiet_tick, quiet_tick]
        (jointTrajectoryCallback three_points home_state)) =
     Inr [[MoveJ [1, 0, 0, 0, 0, 0] None None], [SpeedStop 2], [], []]"
    by (simp add: spinner_quiet_tick tick move_to_trajectory_goal_def jointTrajectoryCallback_def
        stopRobotCallback_def three_points_def joint_goal_def Let_def)
  have jg: "map_sum id snd
     (run scenario_params
        [quiet_tick, quiet_tick\<lparr>pending := [JointGoalCommand (joint_goal [1/2, 0, 0, 0, 0, 0] 2)]\<rparr>,
         quiet_tick, quiet_tick]
        (jointTrajectoryCallback three_points home_state)) =
     Inr [[MoveJ [1, 0, 0, 0, 0, 0] None None],
          [MoveJ [1/2, 0, 0, 0, 0, 0] (Some ((2 / 2 - 0.5 * sqrt (3 + 10 / 10 ^ 12)) * 2)) (Some 2),
           PublishTrajectoryExecuted],
          [], []]"
    by (simp add: spinner_quiet_tick tick goal pos move_to_trajectory_goal_def
        jointTrajectoryCallback_def three_points_def Let_def)
  from stop jg show ?thesis by (intro conjI)
qed

text \<open>
  C10 at two trajectories with the same positions and different other fields.
\<close>

theorem trajectory_command_positions_only_witness:
  "map positions (points three_points_timed) = map positions (points three_points) \<and>
   map_sum id snd (run scenario_params [quiet_tick, quiet_tick]
      (jointTrajectoryCallback three_points_timed home_state)) =
     Inr [[MoveJ [1, 0, 0, 0, 0, 0] None None], [MoveJ [2, 0, 0, 0, 0, 0] None None]] \<and>
   map_sum id snd (run scenario_params [quiet_tick, quiet_tick]
      (jointTrajectoryCallback three_points home_state)) =
     Inr [[MoveJ [1, 0, 0, 0, 0, 0] None None], [MoveJ [2, 0, 0, 0, 0, 0] None None]]"
proof -
  let ?st = "jointTrajectoryCallback three_points home_state"
  have m: "map positions (points three_points_timed) = map positions (points (desired_trajectory ?st))"
    by (simp add: three_points_timed_def three_points_def jointTrajectoryCallback_def)
  have e: "?st\<lparr>desired_trajectory := three_points_timed\<rparr> =
           jointTrajectoryCallback three_points_timed home_state"
    by (simp add: jointTrajectoryCallback_def)
  have r: "map_sum id snd (run scenario_params [quiet_tick, quiet_tick] ?st) =
     Inr [[MoveJ [1, 0, 0, 0, 0, 0] None None], [MoveJ [2, 0, 0, 0, 0, 0] None None]]"
    by (simp add: spinner_quiet_tick move_to_trajectory_goal_def jointTrajectoryCallback_def
        three_points_def joint_goal_def Let_def)
  have m': "map positions (points three_points_timed) = map positions (points three_points)"
    by (simp add: three_points_timed_def three_points_def)
  from trajectory_command_positions_only [OF m, of scenario_params "[quiet_tick, quiet_tick]"]
  have "map_sum id snd (run scenario_params [quiet_tick, quiet_tick]
          (?st\<lparr>desired_trajectory := three_points_timed\<rparr>)) =
        map_sum id snd (run scenario_params [quiet_tick, quiet_tick] ?st)"
    by (rule conjunct1)
  then have "map_sum id snd (run scenario_params [quiet_tick, quiet_tick]
          (jointTrajectoryCallback three_points_timed home_state)) =
     Inr [[MoveJ [1, 0, 0, 0, 0, 0] None None], [MoveJ [2, 0, 0, 0, 0, 0] None None]]"
    unfolding e r .
  with m' r show ?thesis by (intro conjI)
qed

text \<open>
  C7 fails on the code. \<^verbatim>\<open>jointTrajectoryCallback\<close> stores a trajectory without points and
  sets \<^verbatim>\<open>new_trajectory_received_\<close>; the next tick of \<^verbatim>\<open>spinner\<close> reads \<^verbatim>\<open>points[0]\<close> of the
  empty vector.
\<close>

theorem empty_trajectory_out_of_bounds:
  "jointTrajectoryCallback empty_trajectory home_state =
     home_state\<lparr>desired_trajectory := empty_trajectory, new_trajectory_received := True\<rparr> \<and>
   spinner scenario_params quiet_tick (jointTrajectoryCallback empty_trajectory home_state) =
     Inl OutOfBounds \<and>
   spinner scenario_params (quiet_tick\<lparr>pending := [TrajectoryCommand empty_trajectory]\<rparr>) home_state =
     Inl OutOfBounds"
  by (simp add: spinner_def quiet_tick_def RTDE2Pose_zero move_to_trajectory_goal_def
      jointTrajectoryCallback_def empty_trajectory_def)

subsection \<open>Safety status\<close>

text \<open>
  C8 fails on the code. The vectors are indexed without a check and there is no fallback
  label: the safety mode 8 (\<^verbatim>\<open>FAULT\<close> in the comment of the callback) is outside the eight
  elements of \<^verbatim>\<open>safety_mode_msg\<close>, and the status bits are used as an index, so bits 2 and
  10 together (1028) are outside \<^verbatim>\<open>safety_status_bits_msg\<close>.
\<close>

theorem safety_mode_fault_out_of_bounds:
  "length safety_mode_msg = 8 \<and>
   GetSafetyStatusCallback 7 8 0 = Inl OutOfBounds \<and>
   GetSafetyStatusCallback 7 0 1028 = Inl OutOfBounds"
  by (simp add: GetSafetyStatusCallback_def vector_at_def robot_mode_msg_def
      safety_mode_msg_def safety_status_bits_msg_def)

subsection \<open>Pose conversion\<close>

text \<open>For a point of the unit circle in the upper half plane, \<^verbatim>\<open>atan2\<close> is its angle.\<close>

lemma atan2_unit:
  assumes n: "0 < n" and c: "0 \<le> c" and u: "n ^ 2 + c ^ 2 = 1"
  shows "sin (atan2 n c) = n" and "cos (atan2 n c) = c" and "0 < atan2 n c"
proof -
  show "sin (atan2 n c) = n"
  proof (cases "c = 0")
    case True
    with u have "n ^ 2 = 1" by simp
    with n have "n = 1" by (simp add: power2_eq_1_iff)
    with True show ?thesis by (simp add: atan2_def)
  next
    case False
    with c have cp: "0 < c" by simp
    have "1 + (n / c) ^ 2 = (c ^ 2 + n ^ 2) / c ^ 2"
      using cp by (simp add: power_divide add_divide_distrib)
    also have "\<dots> = 1 / c ^ 2" using u by (simp add: add.commute)
    finally have "sqrt (1 + (n / c) ^ 2) = 1 / c"
      using cp by (simp add: real_sqrt_divide)
    then show ?thesis using cp by (simp add: atan2_def sin_arctan)
  qed
  show "cos (atan2 n c) = c"
  proof (cases "c = 0")
    case True
    with n show ?thesis by (simp add: atan2_def)
  next
    case False
    with c have cp: "0 < c" by simp
    have "1 + (n / c) ^ 2 = (c ^ 2 + n ^ 2) / c ^ 2"
      using cp by (simp add: power_divide add_divide_distrib)
    also have "\<dots> = 1 / c ^ 2" using u by (simp add: add.commute)
    finally have "sqrt (1 + (n / c) ^ 2) = 1 / c"
      using cp by (simp add: real_sqrt_divide)
    then show ?thesis using cp by (simp add: atan2_def cos_arctan)
  qed
  show "0 < atan2 n c"
  proof (cases "c = 0")
    case True
    with n show ?thesis by (simp add: atan2_def)
  next
    case False
    with c have cp: "0 < c" by simp
    then have "0 < n / c" using n by simp
    then have "0 < arctan (n / c)" by (simp only: zero_less_arctan_iff)
    then show ?thesis using cp by (simp add: atan2_def)
  qed
qed

lemma RTDE2Pose_scaled_axis:
  assumes ax: "a ^ 2 + b ^ 2 + c ^ 2 = 1" and th: "0 < \<theta>"
  shows "RTDE2Pose [x0, y0, z0, a * \<theta>, b * \<theta>, c * \<theta>] =
           Inr \<lparr>position = \<lparr>px = x0, py = y0, pz = z0\<rparr>,
                orientation = Quaternion_of_AngleAxis \<theta> (a, b, c)\<rparr>"
proof -
  have "(a * \<theta>) ^ 2 + (b * \<theta>) ^ 2 + (c * \<theta>) ^ 2 = (a ^ 2 + b ^ 2 + c ^ 2) * \<theta> ^ 2"
    by (simp add: power_mult_distrib distrib_right)
  then have sq: "(a * \<theta>) ^ 2 + (b * \<theta>) ^ 2 + (c * \<theta>) ^ 2 = \<theta> ^ 2"
    using ax by simp
  have root: "sqrt (\<theta> ^ 2) = \<theta>" using th by simp
  have pos: "0 < \<theta> ^ 2" using th by simp
  have nz: "\<theta> \<noteq> 0" using th by simp
  have ab: "\<bar>\<theta>\<bar> = \<theta>" using th by simp
  have norm: "normalized (a * \<theta>, b * \<theta>, c * \<theta>) = Inr (a, b, c)"
    using pos nz by (simp add: normalized_def squaredNorm_def sq ab vec_div_def Let_def)
  show ?thesis
    by (simp add: RTDE2Pose_def Let_def sq ab norm)
qed

lemma Pose2RTDE_rotation:
  assumes n: "vec_norm (qx q, qy q, qz q) \<noteq> 0"
  shows "Pose2RTDE \<lparr>position = pos, orientation = q\<rparr> =
     (let n = vec_norm (qx q, qy q, qz q); s = (if qw q < 0 then - n else n);
          \<theta> = 2 * atan2 n \<bar>qw q\<bar>
      in Inr [px pos, py pos, pz pos, qx q / s * \<theta>, qy q / s * \<theta>, qz q / s * \<theta>])"
  using n by (simp add: Pose2RTDE_def AngleAxis_of_Quaternion_def vec_div_def vec_scale_def Let_def)

lemma Pose2RTDE_no_rotation:
  assumes n: "vec_norm (qx q, qy q, qz q) = 0"
  shows "Pose2RTDE \<lparr>position = pos, orientation = q\<rparr> = Inr [px pos, py pos, pz pos, 0, 0, 0]"
  using n by (simp add: Pose2RTDE_def AngleAxis_of_Quaternion_def vec_scale_def Let_def)

text \<open>
  C5. For a pose whose orientation is a unit quaternion, \<^verbatim>\<open>RTDE2Pose(Pose2RTDE(pose))\<close> has
  the position of the pose and its orientation up to sign: the quaternion itself when
  \<open>w \<ge> 0\<close>, its negative (the same rotation) when \<open>w < 0\<close>. Over the reals the equality is
  exact.
\<close>

theorem pose_roundtrip:
  assumes unit: "(qx q) ^ 2 + (qy q) ^ 2 + (qz q) ^ 2 + (qw q) ^ 2 = 1"
  shows "(case Pose2RTDE \<lparr>position = pos, orientation = q\<rparr> of
            Inl f \<Rightarrow> Inl f
          | Inr rtde_pose \<Rightarrow> RTDE2Pose rtde_pose) =
         Inr \<lparr>position = pos,
              orientation =
                (if qw q < 0 then \<lparr>qx = - qx q, qy = - qy q, qz = - qz q, qw = - qw q\<rparr> else q)\<rparr>"
proof (cases "vec_norm (qx q, qy q, qz q) = 0")
  case True
  then have "(qx q) ^ 2 + (qy q) ^ 2 + (qz q) ^ 2 = 0"
    by (simp add: vec_norm_def squaredNorm_def)
  moreover have "0 \<le> (qx q) ^ 2 + (qy q) ^ 2" "0 \<le> (qz q) ^ 2" by simp_all
  ultimately have "(qx q) ^ 2 + (qy q) ^ 2 = 0" "(qz q) ^ 2 = 0" by linarith+
  then have z: "qx q = 0" "qy q = 0" "qz q = 0"
    by simp_all
  with unit have "(qw q) ^ 2 = 1" by simp
  then have w: "qw q = 1 \<or> qw q = - 1" by (simp add: power2_eq_1_iff)
  have id: "RTDE2Pose [px pos, py pos, pz pos, 0, 0, 0] =
      Inr \<lparr>position = pos, orientation = \<lparr>qx = 0, qy = 0, qz = 0, qw = 1\<rparr>\<rparr>"
    by (simp add: RTDE2Pose_def normalized_def squaredNorm_def Quaternion_of_AngleAxis_def)
  have q: "q = \<lparr>qx = 0, qy = 0, qz = 0, qw = qw q\<rparr>" using z by (cases q) simp
  from w show ?thesis
  proof
    assume "qw q = 1"
    with q have "q = \<lparr>qx = 0, qy = 0, qz = 0, qw = 1\<rparr>" by simp
    then show ?thesis using Pose2RTDE_no_rotation [OF True, of pos] id by simp
  next
    assume "qw q = - 1"
    with q have "q = \<lparr>qx = 0, qy = 0, qz = 0, qw = - 1\<rparr>" by simp
    then show ?thesis using Pose2RTDE_no_rotation [OF True, of pos] id by simp
  qed
next
  case False
  define n where "n = vec_norm (qx q, qy q, qz q)"
  define s where "s = (if qw q < 0 then - n else n)"
  define \<phi> where "\<phi> = atan2 n \<bar>qw q\<bar>"
  have n2: "n ^ 2 = (qx q) ^ 2 + (qy q) ^ 2 + (qz q) ^ 2"
    by (simp add: n_def vec_norm_def squaredNorm_def)
  have "0 \<le> n" by (simp add: n_def vec_norm_def squaredNorm_def)
  with False have np: "0 < n" by (simp add: n_def)
  have u: "n ^ 2 + \<bar>qw q\<bar> ^ 2 = 1" using unit n2 by simp
  note at = atan2_unit [OF np abs_ge_zero u, folded \<phi>_def]
  have snz: "s \<noteq> 0" using np by (simp add: s_def)
  have s2: "s ^ 2 = n ^ 2" by (simp add: s_def)
  have "(qx q / s) ^ 2 + (qy q / s) ^ 2 + (qz q / s) ^ 2 =
        ((qx q) ^ 2 + (qy q) ^ 2 + (qz q) ^ 2) / s ^ 2"
    by (simp add: power_divide add_divide_distrib)
  also have "\<dots> = n ^ 2 / n ^ 2" by (simp only: n2 s2)
  also have "\<dots> = 1" using np by simp
  finally have ax: "(qx q / s) ^ 2 + (qy q / s) ^ 2 + (qz q / s) ^ 2 = 1" .
  have th: "0 < 2 * \<phi>" using at(3) by simp
  have fwd: "Pose2RTDE \<lparr>position = pos, orientation = q\<rparr> =
      Inr [px pos, py pos, pz pos, qx q / s * (2 * \<phi>), qy q / s * (2 * \<phi>), qz q / s * (2 * \<phi>)]"
    using Pose2RTDE_rotation [OF False, of pos]
    by (simp add: Let_def n_def [symmetric] s_def [symmetric] \<phi>_def [symmetric])
  have bwd: "RTDE2Pose [px pos, py pos, pz pos, qx q / s * (2 * \<phi>), qy q / s * (2 * \<phi>),
                         qz q / s * (2 * \<phi>)] =
      Inr \<lparr>position = pos, orientation = Quaternion_of_AngleAxis (2 * \<phi>) (qx q / s, qy q / s, qz q / s)\<rparr>"
    using RTDE2Pose_scaled_axis [OF ax th, of "px pos" "py pos" "pz pos"] by simp
  have quat: "Quaternion_of_AngleAxis (2 * \<phi>) (qx q / s, qy q / s, qz q / s) =
      \<lparr>qx = n * (qx q / s), qy = n * (qy q / s), qz = n * (qz q / s), qw = \<bar>qw q\<bar>\<rparr>"
    by (simp add: Quaternion_of_AngleAxis_def at)
  have comp: "(case Pose2RTDE \<lparr>position = pos, orientation = q\<rparr> of
            Inl f \<Rightarrow> Inl f
          | Inr rtde_pose \<Rightarrow> RTDE2Pose rtde_pose) =
      Inr \<lparr>position = pos,
           orientation = \<lparr>qx = n * (qx q / s), qy = n * (qy q / s), qz = n * (qz q / s),
                          qw = \<bar>qw q\<bar>\<rparr>\<rparr>"
    by (simp only: fwd sum.case bwd quat)
  have "\<lparr>qx = n * (qx q / s), qy = n * (qy q / s), qz = n * (qz q / s), qw = \<bar>qw q\<bar>\<rparr> =
      (if qw q < 0 then \<lparr>qx = - qx q, qy = - qy q, qz = - qz q, qw = - qw q\<rparr> else q)"
    using np by (cases q) (simp add: s_def)
  then show ?thesis by (simp only: comp)
qed

text \<open>
  C5 at a rotation with \<open>w < 0\<close>, which comes back negated, and at a half turn about the
  \<open>x\<close> axis, which comes back as it is.
\<close>

theorem pose_roundtrip_witness:
  "(qx \<lparr>qx = 0, qy = 3/5, qz = 0, qw = - (4/5)\<rparr>) ^ 2 + (qy \<lparr>qx = 0, qy = 3/5, qz = 0, qw = - (4/5)\<rparr>) ^ 2 +
     (qz \<lparr>qx = 0, qy = 3/5, qz = 0, qw = - (4/5)\<rparr>) ^ 2 + (qw \<lparr>qx = 0, qy = 3/5, qz = 0, qw = - (4/5)\<rparr>) ^ 2 = (1::real) \<and>
   (case Pose2RTDE \<lparr>position = \<lparr>px = 1, py = 2, pz = 3\<rparr>,
                     orientation = \<lparr>qx = 0, qy = 3/5, qz = 0, qw = - (4/5)\<rparr>\<rparr> of
      Inl f \<Rightarrow> Inl f
    | Inr rtde_pose \<Rightarrow> RTDE2Pose rtde_pose) =
     Inr \<lparr>position = \<lparr>px = 1, py = 2, pz = 3\<rparr>,
          orientation = \<lparr>qx = 0, qy = - (3/5), qz = 0, qw = 4/5\<rparr>\<rparr> \<and>
   (case Pose2RTDE \<lparr>position = \<lparr>px = 1, py = 2, pz = 3\<rparr>,
                     orientation = \<lparr>qx = 1, qy = 0, qz = 0, qw = 0\<rparr>\<rparr> of
      Inl f \<Rightarrow> Inl f
    | Inr rtde_pose \<Rightarrow> RTDE2Pose rtde_pose) =
     Inr \<lparr>position = \<lparr>px = 1, py = 2, pz = 3\<rparr>,
          orientation = \<lparr>qx = 1, qy = 0, qz = 0, qw = 0\<rparr>\<rparr>"
proof -
  have u: "(qx \<lparr>qx = 0, qy = 3/5, qz = 0, qw = - (4/5)\<rparr>) ^ 2 + (qy \<lparr>qx = 0, qy = 3/5, qz = 0, qw = - (4/5)\<rparr>) ^ 2 +
     (qz \<lparr>qx = 0, qy = 3/5, qz = 0, qw = - (4/5)\<rparr>) ^ 2 + (qw \<lparr>qx = 0, qy = 3/5, qz = 0, qw = - (4/5)\<rparr>) ^ 2 = (1::real)"
    by (simp add: power2_eq_square)
  have v: "(qx \<lparr>qx = 1, qy = 0, qz = 0, qw = 0\<rparr>) ^ 2 + (qy \<lparr>qx = 1, qy = 0, qz = 0, qw = 0\<rparr>) ^ 2 +
     (qz \<lparr>qx = 1, qy = 0, qz = 0, qw = 0\<rparr>) ^ 2 + (qw \<lparr>qx = 1, qy = 0, qz = 0, qw = 0\<rparr>) ^ 2 = (1::real)"
    by simp
  show ?thesis
    using u pose_roundtrip [OF u, of "\<lparr>px = 1, py = 2, pz = 3\<rparr>"]
      pose_roundtrip [OF v, of "\<lparr>px = 1, py = 2, pz = 3\<rparr>"]
    by simp
qed

text \<open>
  C6. \<^verbatim>\<open>Pose2RTDE\<close> maps the identity quaternion to the rotation vector \<open>(0, 0, 0)\<close>, and
  \<^verbatim>\<open>RTDE2Pose\<close> maps the rotation vector \<open>(0, 0, 0)\<close> to the identity quaternion. Both
  results are values: no division with a zero divisor is carried out.
\<close>

theorem zero_rotation_conversions:
  "Pose2RTDE \<lparr>position = pos, orientation = \<lparr>qx = 0, qy = 0, qz = 0, qw = 1\<rparr>\<rparr> =
     Inr [px pos, py pos, pz pos, 0, 0, 0] \<and>
   RTDE2Pose [x0, y0, z0, 0, 0, 0] =
     Inr \<lparr>position = \<lparr>px = x0, py = y0, pz = z0\<rparr>,
          orientation = \<lparr>qx = 0, qy = 0, qz = 0, qw = 1\<rparr>\<rparr>"
  by (simp add: Pose2RTDE_def AngleAxis_of_Quaternion_def vec_norm_def squaredNorm_def
      vec_scale_def RTDE2Pose_def normalized_def Quaternion_of_AngleAxis_def)

end
